theory Spec2Isabelle
  imports Complex_Main "HOL-Library.Monad_Syntax"
begin

section \<open>Numbers and vectors\<close>

text \<open>
  The camera of \<^verbatim>\<open>camera.cpp\<close> computes with \<^verbatim>\<open>float\<close> and \<^verbatim>\<open>double\<close>. Both are
  modelled as \<^typ>\<open>real\<close>: every arithmetic operation is the exact one, so rounding,
  overflow to infinity and NaN are outside the model, and the conversions between
  \<^verbatim>\<open>float\<close> and \<^verbatim>\<open>double\<close> are the identity. What the specification states "up to
  floating-point tolerance" of the orientation vectors is stated exactly here.

  One property depends on the rounding itself: whether moving forward and then backward
  brings the position back. For it \<^verbatim>\<open>processKeyboard\<close> is embedded a second time, in
  binary32 arithmetic (section "Binary32 arithmetic" below), with every operation of
  the source rounded to nearest, ties to even, and overflow as a result of its own.

  \<^verbatim>\<open>GLboolean\<close> arguments are only ever tested for truth, and are modelled as \<^typ>\<open>bool\<close>.
\<close>

text \<open>\<^verbatim>\<open>glm::vec3\<close>: three components.\<close>

datatype vec3 = Vec3 (vx: real) (vy: real) (vz: real)

text \<open>The operators \<^verbatim>\<open>+\<close>, \<^verbatim>\<open>-\<close> on vectors and \<^verbatim>\<open>*\<close> of a vector by a scalar.\<close>

definition vec3_add :: "vec3 \<Rightarrow> vec3 \<Rightarrow> vec3" where
  "vec3_add a b = Vec3 (vx a + vx b) (vy a + vy b) (vz a + vz b)"

definition vec3_sub :: "vec3 \<Rightarrow> vec3 \<Rightarrow> vec3" where
  "vec3_sub a b = Vec3 (vx a - vx b) (vy a - vy b) (vz a - vz b)"

definition vec3_scale :: "vec3 \<Rightarrow> real \<Rightarrow> vec3" where
  "vec3_scale a s = Vec3 (vx a * s) (vy a * s) (vz a * s)"

text \<open>
  The library functions \<^verbatim>\<open>glm::dot\<close>, \<^verbatim>\<open>glm::cross\<close>, \<^verbatim>\<open>glm::radians\<close> and
  \<^verbatim>\<open>glm::normalize\<close>, by their mathematical definitions. \<^verbatim>\<open>glm::normalize\<close> multiplies
  the vector by the inverse square root of its squared length. At the zero vector the
  library divides by zero and every component becomes NaN; there \<open>1 / sqrt 0 = 0\<close> in
  HOL and the model's value is the zero vector. No theorem below relies on the value
  of \<open>normalize_vec3\<close> at the zero vector as a fact about the program. (The name
  \<open>normalize\<close> is taken in HOL.)
\<close>

definition dot :: "vec3 \<Rightarrow> vec3 \<Rightarrow> real" where
  "dot a b = vx a * vx b + vy a * vy b + vz a * vz b"

definition cross :: "vec3 \<Rightarrow> vec3 \<Rightarrow> vec3" where
  "cross a b = Vec3 (vy a * vz b - vy b * vz a)
                    (vz a * vx b - vz b * vx a)
                    (vx a * vy b - vx b * vy a)"

definition normalize_vec3 :: "vec3 \<Rightarrow> vec3" where
  "normalize_vec3 v = vec3_scale v (1 / sqrt (dot v v))"

definition radians :: "real \<Rightarrow> real" where
  "radians degrees = degrees * (pi / 180)"

section \<open>The camera\<close>

datatype Camera_Movement = FORWARD | BACKWARD | LEFT | RIGHT

definition DEFAULT_YAW :: real where "DEFAULT_YAW = -90"
definition DEFAULT_PITCH :: real where "DEFAULT_PITCH = 0"
definition DEFAULT_SPEED :: real where "DEFAULT_SPEED = 2.5"
definition DEFAULT_SENSITIVITY :: real where "DEFAULT_SENSITIVITY = 0.1"
definition DEFAULT_ZOOM :: real where "DEFAULT_ZOOM = 45"

text \<open>The member variables of \<^verbatim>\<open>class Camera\<close>, in the order of their declaration.\<close>

record camera =
  position :: vec3
  front :: vec3
  up :: vec3
  right :: vec3
  worldUp :: vec3
  yaw :: real
  pitch :: real
  movementSpeed :: real
  mouseSensitivity :: real
  zoom :: real

text \<open>
  \<^verbatim>\<open>updateCameraVectors\<close>: the new front vector from the Euler angles, then the right
  and the up vector. The assignment to \<open>right\<close> reads the new \<open>front\<close>, the assignment
  to \<open>up\<close> reads the new \<open>right\<close> and the new \<open>front\<close>.
\<close>

definition updateCameraVectors :: "camera \<Rightarrow> camera" where
  "updateCameraVectors c =
     (let new_front = Vec3 (cos (radians (yaw c)) * cos (radians (pitch c)))
                           (sin (radians (pitch c)))
                           (sin (radians (yaw c)) * cos (radians (pitch c)));
          c1 = c\<lparr>front := normalize_vec3 new_front\<rparr>;
          c2 = c1\<lparr>right := normalize_vec3 (cross (front c1) (worldUp c1))\<rparr>;
          c3 = c2\<lparr>up := normalize_vec3 (cross (right c2) (front c2))\<rparr>
      in c3)"

text \<open>
  The constructor with vectors. Its initialiser list sets every member but \<open>up\<close> and
  \<open>right\<close>; \<^verbatim>\<open>updateCameraVectors\<close> assigns both before anything reads them
  (lemma \<open>updateCameraVectors_overwrites\<close> below), so the value they start from is
  immaterial, and the model starts them at zero.
\<close>

definition Camera :: "vec3 \<Rightarrow> vec3 \<Rightarrow> real \<Rightarrow> real \<Rightarrow> camera" where
  "Camera position0 worldUp0 yaw0 pitch0 =
     updateCameraVectors
       \<lparr>position = position0, front = Vec3 0 0 (-1), up = Vec3 0 0 0, right = Vec3 0 0 0,
        worldUp = worldUp0, yaw = yaw0, pitch = pitch0,
        movementSpeed = DEFAULT_SPEED, mouseSensitivity = DEFAULT_SENSITIVITY,
        zoom = DEFAULT_ZOOM\<rparr>"


text \<open>
  \<^verbatim>\<open>GetViewMatrix\<close> returns \<^verbatim>\<open>glm::lookAt(position, position + front, up)\<close>. The library
  function \<^verbatim>\<open>glm::lookAt\<close> is a parameter of the model. The method is not \<^verbatim>\<open>const\<close>;
  the model returns the camera it leaves behind next to the matrix.
\<close>

definition GetViewMatrix :: "(vec3 \<Rightarrow> vec3 \<Rightarrow> vec3 \<Rightarrow> 'mat4) \<Rightarrow> camera \<Rightarrow> 'mat4 \<times> camera" where
  "GetViewMatrix lookAt c = (lookAt (position c) (vec3_add (position c) (front c)) (up c), c)"

text \<open>\<^verbatim>\<open>processKeyboard\<close>: four \<^verbatim>\<open>if\<close> statements in a row, none of them an \<^verbatim>\<open>else\<close>.\<close>

definition processKeyboard :: "camera \<Rightarrow> Camera_Movement \<Rightarrow> real \<Rightarrow> camera" where
  "processKeyboard c direction deltaTime =
     (let velocity = movementSpeed c * deltaTime;
          c1 = (if direction = FORWARD
                then c\<lparr>position := vec3_add (position c) (vec3_scale (front c) velocity)\<rparr>
                else c);
          c2 = (if direction = BACKWARD
                then c1\<lparr>position := vec3_sub (position c1) (vec3_scale (front c1) velocity)\<rparr>
                else c1);
          c3 = (if direction = LEFT
                then c2\<lparr>position := vec3_sub (position c2) (vec3_scale (right c2) velocity)\<rparr>
                else c2);
          c4 = (if direction = RIGHT
                then c3\<lparr>position := vec3_add (position c3) (vec3_scale (right c3) velocity)\<rparr>
                else c3)
      in c4)"

text \<open>
  \<^verbatim>\<open>processMouseMovement\<close>. The body never reads its argument \<open>invertPitch\<close>.
\<close>

definition processMouseMovement :: "camera \<Rightarrow> real \<Rightarrow> real \<Rightarrow> bool \<Rightarrow> bool \<Rightarrow> camera" where
  "processMouseMovement c xoffset0 yoffset0 invertPitch constrainPitch =
     (let xoffset = xoffset0 * mouseSensitivity c;
          yoffset = yoffset0 * mouseSensitivity c;
          c1 = c\<lparr>yaw := yaw c + xoffset\<rparr>;
          c2 = c1\<lparr>pitch := pitch c1 + yoffset\<rparr>;
          c3 = (if constrainPitch
                then (let c2a = (if pitch c2 > 89 then c2\<lparr>pitch := 89\<rparr> else c2);
                          c2b = (if pitch c2a < -89 then c2a\<lparr>pitch := -89\<rparr> else c2a)
                      in c2b)
                else c2)
      in updateCameraVectors c3)"

text \<open>\<^verbatim>\<open>processMouseScroll\<close>, with its early return when the zoom is not constrained.\<close>

definition processMouseScroll :: "camera \<Rightarrow> real \<Rightarrow> bool \<Rightarrow> camera" where
  "processMouseScroll c yoffset constrainZoom =
     (let c1 = c\<lparr>zoom := zoom c - yoffset\<rparr>
      in if \<not> constrainZoom then c1
         else (let c2 = (if zoom c1 < 1 then c1\<lparr>zoom := 1\<rparr> else c1);
                   c3 = (if zoom c2 > 45 then c2\<lparr>zoom := 45\<rparr> else c2)
               in c3))"

text \<open>
  The scroll callback that \<^verbatim>\<open>main\<close> registers in \<^verbatim>\<open>main.cpp\<close>: a lambda that drops the
  horizontal offset and passes \<^verbatim>\<open>false\<close> for \<open>constrainZoom\<close>. The lambda spells the
  method \<^verbatim>\<open>ProcessMouseScroll\<close>; \<^verbatim>\<open>processMouseScroll\<close> of \<^verbatim>\<open>camera.cpp\<close> is the only
  method of that name and signature, and is the one modelled.
\<close>

definition scroll_callback :: "camera \<Rightarrow> real \<Rightarrow> real \<Rightarrow> camera" where
  "scroll_callback c xoffset yoffset = processMouseScroll c yoffset False"

text \<open>
  The global camera of \<^verbatim>\<open>main.cpp\<close>, as its constructor leaves it:
  \<^verbatim>\<open>Camera camera(glm::vec3(0.0f, 0.0f, 3.0f), glm::vec3(0.0f, 1.0f, 0.0f))\<close>, with the
  default yaw and pitch.
\<close>

definition main_camera :: camera where
  "main_camera = Camera (Vec3 0 0 3) (Vec3 0 1 0) DEFAULT_YAW DEFAULT_PITCH"

text \<open>
  Sequences of calls: the camera after all the calls of the list, made in turn. Each
  call carries its own arguments, the flags last.
\<close>

definition mouse_movements :: "camera \<Rightarrow> (real \<times> real \<times> bool \<times> bool) list \<Rightarrow> camera" where
  "mouse_movements c calls =
     foldl (\<lambda>s (xoffset, yoffset, invertPitch, constrainPitch).
              processMouseMovement s xoffset yoffset invertPitch constrainPitch) c calls"

definition mouse_scrolls :: "camera \<Rightarrow> (real \<times> bool) list \<Rightarrow> camera" where
  "mouse_scrolls c calls =
     foldl (\<lambda>s (yoffset, constrainZoom). processMouseScroll s yoffset constrainZoom) c calls"


section \<open>Binary32 arithmetic\<close>

text \<open>
  The \<^verbatim>\<open>float\<close> of the source is IEEE 754 binary32: 24 significant bits, exponents
  from -126 to 127, subnormal numbers below \<open>2 powi (-126)\<close>. A finite \<^verbatim>\<open>float\<close> is
  modelled by the real number it denotes.

  \<open>float_exponent x\<close> is the exponent of the binade of \<open>x\<close>, held at -126 in the
  subnormal range; \<open>ulp32 x\<close> is the distance between neighbouring binary32 numbers
  there. \<open>round32\<close> rounds a real number to the nearest multiple of \<open>ulp32\<close>, a tie to
  the even multiple, as the default rounding mode does.
\<close>

definition float_exponent :: "real \<Rightarrow> int" where
  "float_exponent x = (if x = 0 then -126 else max (-126) \<lfloor>log 2 \<bar>x\<bar>\<rfloor>)"

definition ulp32 :: "real \<Rightarrow> real" where
  "ulp32 x = 2 powi (float_exponent x - 23)"

definition nearest_even :: "real \<Rightarrow> int" where
  "nearest_even y =
     (let n = \<lfloor>y\<rfloor>; r = y - of_int n
      in if r < 1 / 2 then n else if 1 / 2 < r then n + 1 else if even n then n else n + 1)"

definition round32 :: "real \<Rightarrow> real" where
  "round32 x = of_int (nearest_even (x / ulp32 x)) * ulp32 x"

text \<open>
  \<^verbatim>\<open>FLT_MAX\<close>, the largest finite binary32 number. \<open>f32 x\<close> is the \<^verbatim>\<open>float\<close> an operation
  with the exact result \<open>x\<close> delivers: \<open>Some\<close> of the rounded value, or \<open>None\<close> when the
  rounded value exceeds \<^verbatim>\<open>FLT_MAX\<close> and the operation delivers an infinity.
\<close>

definition FLT_MAX :: real where
  "FLT_MAX = (2 ^ 24 - 1) * 2 ^ 104"

definition f32 :: "real \<Rightarrow> real option" where
  "f32 x = (let r = round32 x in if \<bar>r\<bar> \<le> FLT_MAX then Some r else None)"

text \<open>
  The vector operators in binary32, component by component: \<open>None\<close> as soon as one
  component is not finite.
\<close>

definition vec3_f32 :: "real \<Rightarrow> real \<Rightarrow> real \<Rightarrow> vec3 option" where
  "vec3_f32 a b c = do { x \<leftarrow> f32 a; y \<leftarrow> f32 b; z \<leftarrow> f32 c; Some (Vec3 x y z) }"

definition vec3_add_f32 :: "vec3 \<Rightarrow> vec3 \<Rightarrow> vec3 option" where
  "vec3_add_f32 a b = vec3_f32 (vx a + vx b) (vy a + vy b) (vz a + vz b)"

definition vec3_sub_f32 :: "vec3 \<Rightarrow> vec3 \<Rightarrow> vec3 option" where
  "vec3_sub_f32 a b = vec3_f32 (vx a - vx b) (vy a - vy b) (vz a - vz b)"

definition vec3_scale_f32 :: "vec3 \<Rightarrow> real \<Rightarrow> vec3 option" where
  "vec3_scale_f32 a s = vec3_f32 (vx a * s) (vy a * s) (vz a * s)"

text \<open>
  \<^verbatim>\<open>processKeyboard\<close> in binary32, statement by statement as above: the product
  \<^verbatim>\<open>movementSpeed * deltaTime\<close> is rounded into \<open>velocity\<close>, \<^verbatim>\<open>front * velocity\<close> is rounded
  into a vector, and the sum or difference with \<open>position\<close> is rounded again. The camera
  it starts from holds finite numbers. The result is \<open>None\<close> when an operation delivers
  an infinity or a NaN: each of them ends up in a component of \<open>position\<close> (an infinite
  \<open>velocity\<close> makes every component of \<^verbatim>\<open>front * velocity\<close> infinite or NaN), and neither
  \<^verbatim>\<open>+=\<close> nor \<^verbatim>\<open>-=\<close> brings such a component back to a finite number.
\<close>

definition processKeyboard_f32 :: "camera \<Rightarrow> Camera_Movement \<Rightarrow> real \<Rightarrow> camera option" where
  "processKeyboard_f32 c direction deltaTime =
     do {
       velocity \<leftarrow> f32 (movementSpeed c * deltaTime);
       c1 \<leftarrow> (if direction = FORWARD
              then do { d \<leftarrow> vec3_scale_f32 (front c) velocity;
                        p \<leftarrow> vec3_add_f32 (position c) d;
                        Some (c\<lparr>position := p\<rparr>) }
              else Some c);
       c2 \<leftarrow> (if direction = BACKWARD
              then do { d \<leftarrow> vec3_scale_f32 (front c1) velocity;
                        p \<leftarrow> vec3_sub_f32 (position c1) d;
                        Some (c1\<lparr>position := p\<rparr>) }
              else Some c1);
       c3 \<leftarrow> (if direction = LEFT
              then do { d \<leftarrow> vec3_scale_f32 (right c2) velocity;
                        p \<leftarrow> vec3_sub_f32 (position c2) d;
                        Some (c2\<lparr>position := p\<rparr>) }
              else Some c2);
       c4 \<leftarrow> (if direction = RIGHT
              then do { d \<leftarrow> vec3_scale_f32 (right c3) velocity;
                        p \<leftarrow> vec3_add_f32 (position c3) d;
                        Some (c3\<lparr>position := p\<rparr>) }
              else Some c3);
       Some c4
     }"

text \<open>Forward, then backward at once, with the same \<open>deltaTime\<close>.\<close>

definition forward_backward_f32 :: "camera \<Rightarrow> real \<Rightarrow> camera option" where
  "forward_backward_f32 c deltaTime =
     do { c1 \<leftarrow> processKeyboard_f32 c FORWARD deltaTime;
          processKeyboard_f32 c1 BACKWARD deltaTime }"

text \<open>
  The tolerance of the round trip for a component \<open>p\<close> of the position moved by \<open>d\<close>:
  three relative rounding errors \<open>2 powi (-24)\<close> of the magnitudes involved, and three
  absolute errors of the subnormal range.
\<close>

definition tolerance32 :: "real \<Rightarrow> real \<Rightarrow> real" where
  "tolerance32 p d = 3 * 2 powi (-24) * (\<bar>p\<bar> + \<bar>d\<bar>) + 3 * 2 powi (-150)"

section \<open>Vector algebra\<close>











lemma vec3_add_sub_cancel: "vec3_sub (vec3_add a b) b = a"
  by (cases a) (simp add: vec3_add_def vec3_sub_def)





lemma radians_values: "radians (-90) = - (pi / 2)" "radians 0 = 0"
  by (simp_all add: radians_def)


section \<open>The orientation update\<close>

text \<open>\<^verbatim>\<open>updateCameraVectors\<close> writes \<open>front\<close>, \<open>right\<close> and \<open>up\<close>, and reads none of their old values.\<close>

lemma updateCameraVectors_overwrites:
  "updateCameraVectors (c\<lparr>front := f, up := u, right := r\<rparr>) = updateCameraVectors c"
  by (simp add: updateCameraVectors_def Let_def)

lemma updateCameraVectors_idem:
  "updateCameraVectors (updateCameraVectors c) = updateCameraVectors c"
  by (simp add: updateCameraVectors_def Let_def)

lemma updateCameraVectors_fields:
  "position (updateCameraVectors c) = position c"
  "worldUp (updateCameraVectors c) = worldUp c"
  "yaw (updateCameraVectors c) = yaw c"
  "pitch (updateCameraVectors c) = pitch c"
  "movementSpeed (updateCameraVectors c) = movementSpeed c"
  "mouseSensitivity (updateCameraVectors c) = mouseSensitivity c"
  "zoom (updateCameraVectors c) = zoom c"
  by (simp_all add: updateCameraVectors_def Let_def)









text \<open>The global camera of \<^verbatim>\<open>main.cpp\<close>, field by field.\<close>

lemma main_camera_eq:
  "main_camera = \<lparr>position = Vec3 0 0 3, front = Vec3 0 0 (-1), up = Vec3 0 1 0,
     right = Vec3 1 0 0, worldUp = Vec3 0 1 0, yaw = -90, pitch = 0,
     movementSpeed = 2.5, mouseSensitivity = 0.1, zoom = 45\<rparr>"
  by (simp add: main_camera_def Camera_def updateCameraVectors_def Let_def radians_values
      DEFAULT_YAW_def DEFAULT_PITCH_def DEFAULT_SPEED_def DEFAULT_SENSITIVITY_def DEFAULT_ZOOM_def
      normalize_vec3_def vec3_scale_def dot_def cross_def)

lemma main_camera_fixed: "updateCameraVectors main_camera = main_camera"
  by (simp add: main_camera_def Camera_def updateCameraVectors_idem)

section \<open>Sequences of calls\<close>

lemma mouse_movements_snoc:
  "mouse_movements c (calls @ [(xoffset, yoffset, invertPitch, constrainPitch)]) =
     processMouseMovement (mouse_movements c calls) xoffset yoffset invertPitch constrainPitch"
  by (simp add: mouse_movements_def)

lemma mouse_scrolls_snoc:
  "mouse_scrolls c (calls @ [(yoffset, constrainZoom)]) =
     processMouseScroll (mouse_scrolls c calls) yoffset constrainZoom"
  by (simp add: mouse_scrolls_def)

lemma take_last_call:
  assumes "0 < n" "n \<le> length calls"
  shows "take n calls = take (n - 1) calls @ [calls ! (n - 1)]" "calls ! (n - 1) \<in> set calls"
proof -
  from assms have lt: "n - 1 < length calls" by arith
  from assms(1) have n: "n = Suc (n - 1)" by simp
  show "take n calls = take (n - 1) calls @ [calls ! (n - 1)]"
    using take_Suc_conv_app_nth [OF lt] n by simp
  show "calls ! (n - 1) \<in> set calls" using lt by simp
qed

lemma processMouseMovement_pitch:
  "pitch (processMouseMovement c xoffset yoffset invertPitch True) =
     max (-89) (min 89 (pitch c + yoffset * mouseSensitivity c))"
  by (simp add: processMouseMovement_def Let_def updateCameraVectors_fields)

lemma processMouseScroll_zoom:
  "zoom (processMouseScroll c yoffset True) = max 1 (min 45 (zoom c - yoffset))"
  by (simp add: processMouseScroll_def Let_def)

section \<open>Binary32 rounding\<close>

text \<open>Rounding moves a number by at most half a unit in the last place.\<close>

lemma nearest_even_error: "\<bar>of_int (nearest_even y) - y\<bar> \<le> 1 / 2"
proof -
  have "0 \<le> y - of_int \<lfloor>y\<rfloor>" "y - of_int \<lfloor>y\<rfloor> < 1" by linarith+
  then show ?thesis
    by (auto simp add: nearest_even_def Let_def abs_le_iff)
qed

lemma ulp32_pos: "0 < ulp32 x"
  by (simp add: ulp32_def)

lemma ulp32_bound: "ulp32 x \<le> 2 powi (-23) * \<bar>x\<bar> + 2 powi (-149)"
proof (cases "x \<noteq> 0 \<and> -126 < \<lfloor>log 2 \<bar>x\<bar>\<rfloor>")
  case True
  define e where "e = \<lfloor>log 2 \<bar>x\<bar>\<rfloor>"
  from True have x: "0 < \<bar>x\<bar>" by simp
  have "2 powr (real_of_int e) \<le> \<bar>x\<bar>"
    using floor_log_eq_powr_iff [of "\<bar>x\<bar>" 2 e] x by (simp add: e_def)
  then have le: "2 powi e \<le> \<bar>x\<bar>"
    by (simp add: powr_real_of_int')
  have "float_exponent x = e"
    using True by (simp add: float_exponent_def e_def)
  then have "ulp32 x = 2 powi (e + (-23))"
    by (simp add: ulp32_def)
  also have "\<dots> = 2 powi e * 2 powi (-23)"
    by (rule power_int_add) simp
  also have "\<dots> \<le> \<bar>x\<bar> * 2 powi (-23)"
    using le by (intro mult_right_mono) simp_all
  finally show ?thesis by (simp add: mult.commute)
next
  case False
  then have "float_exponent x = -126"
    by (auto simp add: float_exponent_def)
  then have "ulp32 x = 2 powi (-149)"
    by (simp add: ulp32_def)
  moreover have "0 \<le> 2 powi (-23) * \<bar>x\<bar>"
    by (intro mult_nonneg_nonneg) simp_all
  ultimately show ?thesis by linarith
qed

lemma round32_error: "\<bar>round32 x - x\<bar> \<le> 2 powi (-24) * \<bar>x\<bar> + 2 powi (-150)"
proof -
  have u: "0 < ulp32 x" by (rule ulp32_pos)
  have "round32 x - x = (of_int (nearest_even (x / ulp32 x)) - x / ulp32 x) * ulp32 x"
    using u by (simp add: round32_def algebra_simps)
  then have "\<bar>round32 x - x\<bar> = \<bar>of_int (nearest_even (x / ulp32 x)) - x / ulp32 x\<bar> * ulp32 x"
    using u by (simp add: abs_mult)
  also have "\<dots> \<le> 1 / 2 * ulp32 x"
    using u nearest_even_error [of "x / ulp32 x"] by (intro mult_right_mono) simp_all
  also have "\<dots> \<le> 1 / 2 * (2 powi (-23) * \<bar>x\<bar> + 2 powi (-149))"
    using ulp32_bound [of x] by simp
  also have "\<dots> = 2 powi (-24) * \<bar>x\<bar> + 2 powi (-150)"
    by (simp add: power_int_minus field_simps)
  finally show ?thesis .
qed


lemma roundtrip_component: "\<bar>round32 (round32 (p + d) - d) - p\<bar> \<le> tolerance32 p d"
proof -
  define u :: real where "u = 2 powi (-24)"
  define h :: real where "h = 2 powi (-150)"
  define q where "q = round32 (p + d)"
  define r where "r = round32 (q - d)"
  have u: "0 \<le> u" "u \<le> 1" and h: "0 \<le> h" by (simp_all add: u_def h_def)
  have e1: "\<bar>q - (p + d)\<bar> \<le> u * \<bar>p + d\<bar> + h"
    unfolding q_def u_def h_def by (rule round32_error)
  have e2: "\<bar>r - (q - d)\<bar> \<le> u * \<bar>q - d\<bar> + h"
    unfolding r_def u_def h_def by (rule round32_error)
  have pd: "u * \<bar>p + d\<bar> \<le> u * (\<bar>p\<bar> + \<bar>d\<bar>)"
    using u by (intro mult_left_mono) simp_all
  have "\<bar>q - d\<bar> \<le> \<bar>p\<bar> + (u * (\<bar>p\<bar> + \<bar>d\<bar>) + h)"
    using e1 pd by linarith
  then have "u * \<bar>q - d\<bar> \<le> u * (\<bar>p\<bar> + (u * (\<bar>p\<bar> + \<bar>d\<bar>) + h))"
    using u by (intro mult_left_mono) simp_all
  also have "\<dots> = u * \<bar>p\<bar> + u * (u * (\<bar>p\<bar> + \<bar>d\<bar>) + h)"
    by (simp add: algebra_simps)
  also have "u * (u * (\<bar>p\<bar> + \<bar>d\<bar>) + h) \<le> 1 * (u * (\<bar>p\<bar> + \<bar>d\<bar>) + h)"
    using u h by (intro mult_right_mono add_nonneg_nonneg mult_nonneg_nonneg) simp_all
  finally have qd: "u * \<bar>q - d\<bar> \<le> u * \<bar>p\<bar> + (u * (\<bar>p\<bar> + \<bar>d\<bar>) + h)"
    by simp
  have "u * \<bar>p\<bar> \<le> u * (\<bar>p\<bar> + \<bar>d\<bar>)"
    using u by (intro mult_left_mono) simp_all
  with qd e1 e2 pd have "\<bar>r - p\<bar> \<le> 3 * (u * (\<bar>p\<bar> + \<bar>d\<bar>)) + 3 * h"
    by linarith
  then show ?thesis
    by (simp add: tolerance32_def r_def q_def u_def h_def)
qed

lemma f32_Some: "f32 x = Some r \<Longrightarrow> r = round32 x"
  by (simp add: f32_def Let_def split: if_splits)

lemma vec3_f32_Some:
  assumes "vec3_f32 a b c = Some w"
  shows "w = Vec3 (round32 a) (round32 b) (round32 c)"
  using assms by (auto simp add: vec3_f32_def dest!: f32_Some split: Option.bind_splits)

lemma processKeyboard_f32_FORWARD:
  assumes "processKeyboard_f32 c FORWARD deltaTime = Some c1"
  shows "\<exists>d. vec3_scale_f32 (front c) (round32 (movementSpeed c * deltaTime)) = Some d \<and>
             vec3_add_f32 (position c) d = Some (position c1) \<and>
             c1 = c\<lparr>position := position c1\<rparr>"
  using assms by (auto simp add: processKeyboard_f32_def dest!: f32_Some split: Option.bind_splits)

lemma processKeyboard_f32_BACKWARD:
  assumes "processKeyboard_f32 c BACKWARD deltaTime = Some c1"
  shows "\<exists>d. vec3_scale_f32 (front c) (round32 (movementSpeed c * deltaTime)) = Some d \<and>
             vec3_sub_f32 (position c) d = Some (position c1) \<and>
             c1 = c\<lparr>position := position c1\<rparr>"
  using assms by (auto simp add: processKeyboard_f32_def dest!: f32_Some split: Option.bind_splits)

text \<open>Evaluating \<open>round32\<close>: in a binade, in the subnormal range, at zero.\<close>

lemma float_exponent_binade:
  assumes "2 powi k \<le> \<bar>x\<bar>" and "\<bar>x\<bar> < 2 powi (k + 1)" and "-126 \<le> k"
  shows "float_exponent x = k"
proof -
  have pos: "0 < \<bar>x\<bar>"
    using assms(1) zero_less_power_int [of "2::real" k] by linarith
  have "2 powr (real_of_int k) \<le> \<bar>x\<bar>" "\<bar>x\<bar> < 2 powr (real_of_int k + 1)"
    using assms(1,2) powr_real_of_int' [of 2 k] powr_real_of_int' [of 2 "k + 1"] by simp_all
  then have "\<lfloor>log 2 \<bar>x\<bar>\<rfloor> = k"
    using floor_log_eq_powr_iff [of "\<bar>x\<bar>" 2 k] pos by simp
  with pos assms(3) show ?thesis
    by (simp add: float_exponent_def)
qed

lemma round32_binade:
  assumes "2 powi k \<le> \<bar>x\<bar>" and "\<bar>x\<bar> < 2 powi (k + 1)" and "-126 \<le> k"
  shows "round32 x = of_int (nearest_even (x / 2 powi (k - 23))) * 2 powi (k - 23)"
  by (simp add: round32_def ulp32_def float_exponent_binade [OF assms])

lemma round32_zero: "round32 0 = 0"
  by (simp add: round32_def nearest_even_def)

lemma f32_zero: "f32 0 = Some 0"
  by (simp add: f32_def round32_zero FLT_MAX_def)

lemma float_exponent_subnormal:
  assumes "\<bar>x\<bar> < 2 powi (-126)"
  shows "float_exponent x = -126"
proof (cases "x = 0")
  case False
  then have pos: "0 < \<bar>x\<bar>" by simp
  have "\<bar>x\<bar> < 2 powr (real_of_int (-126))"
    using assms powr_real_of_int' [of 2 "-126"] by simp
  then have "log 2 \<bar>x\<bar> < real_of_int (-126)"
    using pos by (simp add: log_less_iff)
  then have "\<lfloor>log 2 \<bar>x\<bar>\<rfloor> < -126" by linarith
  then show ?thesis using False by (simp add: float_exponent_def)
qed (simp add: float_exponent_def)

lemma round32_subnormal:
  assumes "\<bar>x\<bar> < 2 powi (-126)"
  shows "round32 x = of_int (nearest_even (x / 2 powi (-149))) * 2 powi (-149)"
  by (simp add: round32_def ulp32_def float_exponent_subnormal [OF assms])

text \<open>
  Some values: \<^verbatim>\<open>0.1f\<close>; two ties; the largest finite number and the first number that
  rounds to infinity; ties among the subnormal numbers.
\<close>

lemma round32_examples:
  "round32 (1 / 10) = 13421773 / 134217728"
  "round32 41943042 = 41943040" "round32 41943046 = 41943048"
  "f32 (2 ^ 128 - 2 ^ 104) = Some (2 ^ 128 - 2 ^ 104)" "f32 (2 ^ 128 - 2 ^ 103) = None"
  "round32 (3 / 2 ^ 150) = 2 / 2 ^ 149" "round32 (1 / 2 ^ 150) = 0"
  using round32_binade [of "-4" "1 / 10"]
    round32_binade [of 25 41943042] round32_binade [of 25 41943046]
    round32_binade [of 127 "2 ^ 128 - 2 ^ 104"] round32_binade [of 127 "2 ^ 128 - 2 ^ 103"]
    round32_subnormal [of "3 / 2 ^ 150"] round32_subnormal [of "1 / 2 ^ 150"]
  by (simp_all add: nearest_even_def f32_def FLT_MAX_def)

text \<open>
  The camera constructed at \<open>(3, 0, 0)\<close> with yaw and pitch zero. Its fields are binary32
  numbers but for the mouse sensitivity, which \<^verbatim>\<open>processKeyboard\<close> does not read, and
  the constructor computes them without rounding: the cosine of zero is one, its sine
  zero, and every vector it normalises has length one.
\<close>

lemma start_camera:
  "Camera (Vec3 3 0 0) (Vec3 0 1 0) 0 0 =
     \<lparr>position = Vec3 3 0 0, front = Vec3 1 0 0, up = Vec3 0 1 0, right = Vec3 0 0 1,
      worldUp = Vec3 0 1 0, yaw = 0, pitch = 0, movementSpeed = 2.5,
      mouseSensitivity = 0.1, zoom = 45\<rparr>"
  by (simp add: Camera_def updateCameraVectors_def Let_def radians_def
      DEFAULT_SPEED_def DEFAULT_SENSITIVITY_def DEFAULT_ZOOM_def
      normalize_vec3_def vec3_scale_def dot_def cross_def)

lemma round32_values:
  "round32 41943040 = 41943040" "round32 41943043 = 41943044" "round32 4 = 4"
  using round32_binade [of 25 41943040] round32_binade [of 25 41943043]
    round32_binade [of 2 4]
  by (simp_all add: nearest_even_def)

lemma f32_values:
  "f32 41943040 = Some 41943040" "f32 41943043 = Some 41943044" "f32 4 = Some 4"
  by (simp_all add: f32_def round32_values FLT_MAX_def)

text \<open>
  From that camera, with \<open>deltaTime = 2 ^ 24\<close>: the velocity is \<open>2.5 * 2 ^ 24 = 41943040\<close>,
  the sum \<open>3 + 41943040\<close> lies between the neighbours \<open>41943040\<close> and \<open>41943044\<close> and
  rounds to the second, and the way back ends at 4.
\<close>

lemma forward_backward_long_step:
  "forward_backward_f32 (Camera (Vec3 3 0 0) (Vec3 0 1 0) 0 0) 16777216 =
     Some ((Camera (Vec3 3 0 0) (Vec3 0 1 0) 0 0)\<lparr>position := Vec3 4 0 0\<rparr>)"
  by (simp add: start_camera forward_backward_f32_def processKeyboard_f32_def
      vec3_scale_f32_def vec3_add_f32_def vec3_sub_f32_def vec3_f32_def f32_values f32_zero)

text \<open>
  With \<open>deltaTime = 2 ^ 127\<close> the velocity \<open>2.5 * 2 ^ 127\<close> is beyond \<^verbatim>\<open>FLT_MAX\<close>: the first
  call already leaves no finite position.
\<close>

lemma forward_overflow:
  "processKeyboard_f32 (Camera (Vec3 3 0 0) (Vec3 0 1 0) 0 0) FORWARD (2 ^ 127) = None"
proof -
  have "f32 (5 / 2 * 2 ^ 127) = None"
    using round32_binade [of 128 "5 / 2 * 2 ^ 127"]
    by (simp add: nearest_even_def f32_def FLT_MAX_def)
  then show ?thesis
    by (simp add: start_camera processKeyboard_f32_def)
qed

text \<open>
  In exact arithmetic the round trip is the identity, so the deviation of the binary32
  code is that of rounding alone.
\<close>

lemma forward_backward_exact_arithmetic:
  "processKeyboard (processKeyboard c FORWARD deltaTime) BACKWARD deltaTime = c"
  by (simp add: processKeyboard_def Let_def vec3_add_sub_cancel)

section \<open>The claims\<close>



text \<open>
  Claim C2. From any camera, after each call of a sequence of \<^verbatim>\<open>processMouseMovement\<close>
  calls that all pass a true \<open>constrainPitch\<close>, the pitch lies between -89 and 89
  degrees: the camera after the first \<open>n\<close> calls, for every \<open>n\<close> from one to the length
  of the sequence.
\<close>

theorem pitch_constrained:
  assumes "\<forall>(xoffset, yoffset, invertPitch, constrainPitch) \<in> set calls. constrainPitch" and "0 < n" and "n \<le> length calls"
  shows "-89 \<le> pitch (mouse_movements c (take n calls)) \<and>
         pitch (mouse_movements c (take n calls)) \<le> 89"
proof -
  obtain xoffset yoffset invertPitch constrainPitch
    where call: "calls ! (n - 1) = (xoffset, yoffset, invertPitch, constrainPitch)"
    by (cases "calls ! (n - 1)") auto
  from take_last_call [OF assms(2,3)] assms(1) call have "constrainPitch"
    by fastforce
  with take_last_call(1) [OF assms(2,3)] call
  have "mouse_movements c (take n calls) =
        processMouseMovement (mouse_movements c (take (n - 1) calls)) xoffset yoffset invertPitch True"
    by (simp add: mouse_movements_snoc)
  then show ?thesis
    by (simp add: processMouseMovement_pitch)
qed

text \<open>Two calls on the global camera, far up and then far down.\<close>

theorem pitch_constrained_witness:
  "list_all (\<lambda>(xoffset, yoffset, invertPitch, constrainPitch). constrainPitch)
      [(0::real, 1000::real, True, True), (0, -5000, True, True)] \<and>
   (0::nat) < 2 \<and> 2 \<le> length [(0::real, 1000::real, True, True), (0, -5000, True, True)] \<and>
   -89 \<le> pitch (mouse_movements main_camera
                  (take 2 [(0, 1000, True, True), (0, -5000, True, True)])) \<and>
   pitch (mouse_movements main_camera
            (take 2 [(0, 1000, True, True), (0, -5000, True, True)])) \<le> 89"
  using pitch_constrained [of "[(0, 1000, True, True), (0, -5000, True, True)]" 2 main_camera]
  by (simp add: list_all_iff)

text \<open>
  Claim C3 says that the scaled vertical offset is added to or subtracted from the
  pitch depending on \<open>invertPitch\<close>. The code adds it for both values of the flag: the
  two calls return the same camera, and on the global camera a vertical offset of 10
  gives a pitch of 1 degree either way.
\<close>

theorem invertPitch_not_read:
  "processMouseMovement c xoffset yoffset True constrainPitch =
     processMouseMovement c xoffset yoffset False constrainPitch \<and>
   pitch (processMouseMovement main_camera 0 10 True True) = 1 \<and>
   pitch (processMouseMovement main_camera 0 10 False True) = 1"
  by (simp add: processMouseMovement_def Let_def updateCameraVectors_fields main_camera_eq)

text \<open>
  Claim C4. With \<open>v = movementSpeed * deltaTime\<close>, \<^verbatim>\<open>processKeyboard\<close> moves the position
  by \<open>front * v\<close> forward, by \<open>- front * v\<close> backward, by \<open>- right * v\<close> to the left and by
  \<open>right * v\<close> to the right.
\<close>

theorem processKeyboard_position:
  "position (processKeyboard c FORWARD deltaTime) =
     vec3_add (position c) (vec3_scale (front c) (movementSpeed c * deltaTime)) \<and>
   position (processKeyboard c BACKWARD deltaTime) =
     vec3_sub (position c) (vec3_scale (front c) (movementSpeed c * deltaTime)) \<and>
   position (processKeyboard c LEFT deltaTime) =
     vec3_sub (position c) (vec3_scale (right c) (movementSpeed c * deltaTime)) \<and>
   position (processKeyboard c RIGHT deltaTime) =
     vec3_add (position c) (vec3_scale (right c) (movementSpeed c * deltaTime))"
  by (simp add: processKeyboard_def Let_def)

text \<open>
  Claim C5. With a true \<open>constrainZoom\<close>, \<^verbatim>\<open>processMouseScroll\<close> sets the zoom to the
  old zoom minus the offset, clamped into the interval from 1 to 45; from a zoom of 45
  an offset of 50 gives 1; and after each call of a sequence of such calls the zoom
  lies between 1 and 45.
\<close>

theorem zoom_constrained:
  "zoom (processMouseScroll c yoffset True) = max 1 (min 45 (zoom c - yoffset)) \<and>
   (zoom c = 45 \<longrightarrow> zoom (processMouseScroll c 50 True) = 1) \<and>
   ((\<forall>(yoffset, constrainZoom) \<in> set calls. constrainZoom) \<and> 0 < n \<and> n \<le> length calls \<longrightarrow>
      1 \<le> zoom (mouse_scrolls c (take n calls)) \<and> zoom (mouse_scrolls c (take n calls)) \<le> 45)"
proof (intro conjI impI)
  show "zoom (processMouseScroll c yoffset True) = max 1 (min 45 (zoom c - yoffset))"
    by (rule processMouseScroll_zoom)
  show "zoom (processMouseScroll c 50 True) = 1" if "zoom c = 45"
    using that by (simp add: processMouseScroll_zoom)
next
  assume h: "(\<forall>(yoffset, constrainZoom) \<in> set calls. constrainZoom) \<and> 0 < n \<and> n \<le> length calls"
  then have n: "0 < n" "n \<le> length calls" by simp_all
  obtain yoffset' constrainZoom where call: "calls ! (n - 1) = (yoffset', constrainZoom)"
    by (cases "calls ! (n - 1)") auto
  from take_last_call [OF n] h call have "constrainZoom"
    by fastforce
  with take_last_call(1) [OF n] call
  have eq: "mouse_scrolls c (take n calls) =
        processMouseScroll (mouse_scrolls c (take (n - 1) calls)) yoffset' True"
    by (simp add: mouse_scrolls_snoc)
  show "1 \<le> zoom (mouse_scrolls c (take n calls))"
    by (simp add: eq processMouseScroll_zoom)
  show "zoom (mouse_scrolls c (take n calls)) \<le> 45"
    by (simp add: eq processMouseScroll_zoom)
qed

text \<open>The global camera starts at a zoom of 45.\<close>

theorem zoom_constrained_witness:
  "zoom main_camera = 45 \<and> zoom (processMouseScroll main_camera 50 True) = 1 \<and>
   list_all (\<lambda>(yoffset, constrainZoom). constrainZoom) [(50::real, True), (-100, True)] \<and>
   (0::nat) < 2 \<and> 2 \<le> length [(50::real, True), (-100, True)] \<and>
   1 \<le> zoom (mouse_scrolls main_camera (take 2 [(50, True), (-100, True)])) \<and>
   zoom (mouse_scrolls main_camera (take 2 [(50, True), (-100, True)])) \<le> 45"
proof -
  have z: "zoom main_camera = 45" by (simp add: main_camera_eq)
  from zoom_constrained [of main_camera 50 "[(50, True), (-100, True)]" 2] z
  show ?thesis by (simp add: list_all_iff)
qed

text \<open>
  Claim C6. The camera constructed at \<open>(0, 0, 3)\<close> with \<open>worldUp = (0, 1, 0)\<close> and the
  default yaw and pitch looks along \<open>(0, 0, -1)\<close>, and its view matrix is the look-at
  transform from \<open>(0, 0, 3)\<close> toward \<open>(0, 0, 2)\<close> with up vector \<open>(0, 1, 0)\<close>. For every
  camera \<^verbatim>\<open>GetViewMatrix\<close> returns \<open>lookAt position (position + front) up\<close> and leaves
  the camera as it was.
\<close>

theorem default_view:
  "front (Camera (Vec3 0 0 3) (Vec3 0 1 0) DEFAULT_YAW DEFAULT_PITCH) = Vec3 0 0 (-1) \<and>
   fst (GetViewMatrix lookAt (Camera (Vec3 0 0 3) (Vec3 0 1 0) DEFAULT_YAW DEFAULT_PITCH)) =
     lookAt (Vec3 0 0 3) (Vec3 0 0 2) (Vec3 0 1 0) \<and>
   GetViewMatrix lookAt c =
     (lookAt (position c) (vec3_add (position c) (front c)) (up c), c)"
  by (simp add: main_camera_def [symmetric] main_camera_eq GetViewMatrix_def vec3_add_def)

text \<open>
  Claim C7, amended. In the binary32 arithmetic of the code, whenever no intermediate
  result overflows, moving forward and then backward with the same \<open>deltaTime\<close> changes no
  field but the position, and brings each component of the position back to within
  \<open>3 * 2 powi (-24) * (\<bar>p\<bar> + \<bar>d\<bar>) + 3 * 2 powi (-150)\<close> of its value \<open>p\<close> before the two
  calls, where \<open>d\<close> is that component of the displacement \<^verbatim>\<open>front * velocity\<close> the code
  computes: a tolerance that grows with the displacement, not a fixed one.
\<close>

theorem forward_backward_tolerance:
  assumes "forward_backward_f32 c deltaTime = Some c2"
  shows "c2 = c\<lparr>position := position c2\<rparr> \<and>
         (\<exists>d. vec3_scale_f32 (front c) (round32 (movementSpeed c * deltaTime)) = Some d \<and>
            \<bar>vx (position c2) - vx (position c)\<bar> \<le> tolerance32 (vx (position c)) (vx d) \<and>
            \<bar>vy (position c2) - vy (position c)\<bar> \<le> tolerance32 (vy (position c)) (vy d) \<and>
            \<bar>vz (position c2) - vz (position c)\<bar> \<le> tolerance32 (vz (position c)) (vz d))"
proof -
  from assms obtain c1 where fwd: "processKeyboard_f32 c FORWARD deltaTime = Some c1"
    and bwd: "processKeyboard_f32 c1 BACKWARD deltaTime = Some c2"
    by (auto simp add: forward_backward_f32_def split: Option.bind_splits)
  from processKeyboard_f32_FORWARD [OF fwd] obtain d
    where d: "vec3_scale_f32 (front c) (round32 (movementSpeed c * deltaTime)) = Some d"
      and p1: "vec3_add_f32 (position c) d = Some (position c1)"
      and c1: "c1 = c\<lparr>position := position c1\<rparr>"
    by blast
  have same: "front c1 = front c" "movementSpeed c1 = movementSpeed c"
    by (subst c1, simp)+
  from processKeyboard_f32_BACKWARD [OF bwd] d same
  have p2: "vec3_sub_f32 (position c1) d = Some (position c2)"
    and c2: "c2 = c1\<lparr>position := position c2\<rparr>"
    by auto
  have q: "position c1 = Vec3 (round32 (vx (position c) + vx d))
       (round32 (vy (position c) + vy d)) (round32 (vz (position c) + vz d))"
    using p1 by (simp add: vec3_add_f32_def vec3_f32_Some)
  have r: "position c2 = Vec3 (round32 (vx (position c1) - vx d))
       (round32 (vy (position c1) - vy d)) (round32 (vz (position c1) - vz d))"
    using p2 by (simp add: vec3_sub_f32_def vec3_f32_Some)
  have frame: "c2 = c\<lparr>position := position c2\<rparr>"
    by (subst c2, subst c1) simp
  have "\<bar>vx (position c2) - vx (position c)\<bar> \<le> tolerance32 (vx (position c)) (vx d)"
    "\<bar>vy (position c2) - vy (position c)\<bar> \<le> tolerance32 (vy (position c)) (vy d)"
    "\<bar>vz (position c2) - vz (position c)\<bar> \<le> tolerance32 (vz (position c)) (vz d)"
    by (simp_all add: r q roundtrip_component)
  with frame d show ?thesis by blast
qed

text \<open>
  The camera at \<open>(3, 0, 0)\<close> and \<open>deltaTime = 2 ^ 24\<close>: the position comes back at 4, one
  away from 3, and the tolerance there is above one.
\<close>

theorem forward_backward_tolerance_witness:
  "forward_backward_f32 (Camera (Vec3 3 0 0) (Vec3 0 1 0) 0 0) 16777216 =
     Some ((Camera (Vec3 3 0 0) (Vec3 0 1 0) 0 0)\<lparr>position := Vec3 4 0 0\<rparr>) \<and>
   vec3_scale_f32 (front (Camera (Vec3 3 0 0) (Vec3 0 1 0) 0 0))
     (round32 (movementSpeed (Camera (Vec3 3 0 0) (Vec3 0 1 0) 0 0) * 16777216)) =
     Some (Vec3 41943040 0 0) \<and>
   \<bar>4 - 3\<bar> \<le> tolerance32 3 41943040 \<and> \<bar>0 - 0\<bar> \<le> tolerance32 0 0"
proof -
  have d: "vec3_scale_f32 (front (Camera (Vec3 3 0 0) (Vec3 0 1 0) 0 0))
      (round32 (movementSpeed (Camera (Vec3 3 0 0) (Vec3 0 1 0) 0 0) * 16777216)) =
      Some (Vec3 41943040 0 0)"
    by (simp add: start_camera vec3_scale_f32_def vec3_f32_def round32_values f32_values f32_zero)
  from forward_backward_tolerance [OF forward_backward_long_step] d
  have "\<bar>4 - 3\<bar> \<le> tolerance32 3 41943040 \<and> \<bar>0 - 0\<bar> \<le> tolerance32 0 0"
    by (simp add: start_camera)
  with forward_backward_long_step d show ?thesis
    by blast
qed

text \<open>
  As claim C7 is worded, for every camera state and every \<open>deltaTime\<close>, it fails: the
  camera constructed at \<open>(3, 0, 0)\<close> looking along \<open>(1, 0, 0)\<close>, moved forward and then
  backward with \<open>deltaTime = 2 ^ 24\<close>, is at \<open>(4, 0, 0)\<close> afterwards.
\<close>

theorem forward_backward_counterexample:
  "position (Camera (Vec3 3 0 0) (Vec3 0 1 0) 0 0) = Vec3 3 0 0 \<and>
   map_option position (forward_backward_f32 (Camera (Vec3 3 0 0) (Vec3 0 1 0) 0 0) 16777216) =
     Some (Vec3 4 0 0)"
  by (simp add: forward_backward_long_step) (simp add: start_camera)

text \<open>
  Claim C8, amended. For every camera whose pitch lies between -89 and 89 degrees,
  \<^verbatim>\<open>processMouseMovement(0, 0)\<close> with the default flags leaves yaw and pitch unchanged;
  and it leaves \<open>front\<close>, \<open>right\<close> and \<open>up\<close> unchanged when they are the vectors derived
  from yaw, pitch and \<open>worldUp\<close>, as they are after a constructor or a call of
  \<^verbatim>\<open>processMouseMovement\<close>.
\<close>

theorem zero_mouse_movement_noop:
  assumes "-89 \<le> pitch c" and "pitch c \<le> 89"
  shows "yaw (processMouseMovement c 0 0 True True) = yaw c \<and>
         pitch (processMouseMovement c 0 0 True True) = pitch c \<and>
         (updateCameraVectors c = c \<longrightarrow>
            front (processMouseMovement c 0 0 True True) = front c \<and>
            right (processMouseMovement c 0 0 True True) = right c \<and>
            up (processMouseMovement c 0 0 True True) = up c)"
proof -
  have "processMouseMovement c 0 0 True True = updateCameraVectors c"
    using assms by (simp add: processMouseMovement_def Let_def)
  then show ?thesis
    by (simp add: updateCameraVectors_fields)
qed

text \<open>The global camera is within the pitch range, and its vectors are the derived ones.\<close>

theorem zero_mouse_movement_noop_witness:
  "-89 \<le> pitch main_camera \<and> pitch main_camera \<le> 89 \<and>
   updateCameraVectors main_camera = main_camera \<and>
   yaw (processMouseMovement main_camera 0 0 True True) = yaw main_camera \<and>
   pitch (processMouseMovement main_camera 0 0 True True) = pitch main_camera \<and>
   front (processMouseMovement main_camera 0 0 True True) = front main_camera \<and>
   right (processMouseMovement main_camera 0 0 True True) = right main_camera \<and>
   up (processMouseMovement main_camera 0 0 True True) = up main_camera"
proof -
  have p: "-89 \<le> pitch main_camera" "pitch main_camera \<le> 89"
    by (simp_all add: main_camera_eq)
  from zero_mouse_movement_noop [OF p] main_camera_fixed p show ?thesis
    by simp
qed

text \<open>
  As claim C8 is worded, for every camera state, it fails: the constructor does not
  clamp, so a camera constructed with a pitch of 100 degrees keeps it, and the call
  with zero offsets then clamps the pitch to 89.
\<close>

theorem zero_mouse_movement_counterexample:
  "pitch (processMouseMovement (Camera (Vec3 0 0 3) (Vec3 0 1 0) (-90) 100) 0 0 True True)
     \<noteq> pitch (Camera (Vec3 0 0 3) (Vec3 0 1 0) (-90) 100)"
  by (simp add: processMouseMovement_pitch Camera_def updateCameraVectors_fields)

text \<open>
  Claim C9. \<^verbatim>\<open>processKeyboard\<close> changes the position only: yaw, pitch, \<open>front\<close>, \<open>right\<close>,
  \<open>up\<close>, \<open>worldUp\<close>, the movement speed, the mouse sensitivity and the zoom are as before.
\<close>

theorem processKeyboard_frame:
  "yaw (processKeyboard c direction deltaTime) = yaw c \<and>
   pitch (processKeyboard c direction deltaTime) = pitch c \<and>
   front (processKeyboard c direction deltaTime) = front c \<and>
   right (processKeyboard c direction deltaTime) = right c \<and>
   up (processKeyboard c direction deltaTime) = up c \<and>
   worldUp (processKeyboard c direction deltaTime) = worldUp c \<and>
   movementSpeed (processKeyboard c direction deltaTime) = movementSpeed c \<and>
   mouseSensitivity (processKeyboard c direction deltaTime) = mouseSensitivity c \<and>
   zoom (processKeyboard c direction deltaTime) = zoom c"
  by (simp add: processKeyboard_def Let_def)

text \<open>
  Claim C10. With a false \<open>constrainZoom\<close>, \<^verbatim>\<open>processMouseScroll\<close> sets the zoom to the old
  zoom minus the offset and changes nothing else. That is the call the scroll callback
  of \<^verbatim>\<open>main.cpp\<close> makes, and the zoom can leave the interval from 1 to 45: scrolling
  the global camera by 50 takes its zoom from 45 to -5.
\<close>

theorem zoom_unconstrained:
  "processMouseScroll c yoffset False = c\<lparr>zoom := zoom c - yoffset\<rparr> \<and>
   scroll_callback c xoffset yoffset = processMouseScroll c yoffset False \<and>
   zoom main_camera = 45 \<and> zoom (scroll_callback main_camera 0 50) = -5"
  by (simp add: processMouseScroll_def scroll_callback_def main_camera_eq)

end
